theory Spec2Isabelle
  imports Main
begin

section \<open>Python strings\<close>

text \<open>
  A Python \<^verbatim>\<open>str\<close> is modelled by the list of the bytes of its UTF-8 encoding. UTF-8 is
  self-synchronising, so \<^verbatim>\<open>needle in haystack\<close> and \<^verbatim>\<open>s.startswith(p)\<close> on code points
  agree with the same tests on the encoded bytes. The Japanese literals of the source are
  written out byte by byte.
\<close>

definition startswith :: "string \<Rightarrow> string \<Rightarrow> bool" where
  "startswith s p = (take (length p) s = p)"

text \<open>\<^verbatim>\<open>needle in haystack\<close>: the needle occurs as a contiguous block.\<close>

fun str_contains :: "string \<Rightarrow> string \<Rightarrow> bool" where
  "str_contains needle [] = (needle = [])"
| "str_contains needle (c # cs) = (startswith (c # cs) needle \<or> str_contains needle cs)"

text \<open>
  \<^verbatim>\<open>str.lower()\<close>, on the letters A to Z. The only non-ASCII code points whose Python
  lower-casing produces an ASCII letter are U+0130 (to \<^verbatim>\<open>i\<close> followed by U+0307) and U+212A
  (to \<^verbatim>\<open>k\<close>); the mark U+0307 then separates that \<^verbatim>\<open>i\<close> from
  the next letter, and no word searched for in a lower-cased string here (\<^verbatim>\<open>active\<close>,
  \<^verbatim>\<open>date\<close>, \<^verbatim>\<open>time\<close>) has a \<^verbatim>\<open>k\<close> or ends in \<^verbatim>\<open>i\<close>, so on every input the
  searches agree with Python's.
\<close>

definition lower_char :: "char \<Rightarrow> char" where
  "lower_char c =
     (if (65::nat) \<le> of_char c \<and> of_char c \<le> (90::nat)
      then char_of (of_char c + (32::nat)) else c)"

definition str_lower :: "string \<Rightarrow> string" where
  "str_lower s = map lower_char s"

text \<open>The literal \<^verbatim>\<open>"active"\<close> in katakana (line 231 of query_generator.py).\<close>

definition kw_active_ja :: string where
  "kw_active_ja = [CHR 0xE3, CHR 0x82, CHR 0xA2, CHR 0xE3, CHR 0x82, CHR 0xAF, CHR 0xE3,
     CHR 0x83, CHR 0x86, CHR 0xE3, CHR 0x82, CHR 0xA3, CHR 0xE3, CHR 0x83, CHR 0x96]"

section \<open>Python values, exceptions and the collaborators\<close>

datatype cell = CNull | CInt int | CText string

text \<open>
  A pandas DataFrame: the length of its index (\<^verbatim>\<open>len(df)\<close>) and its columns in order, each
  a label with the column's values (\<^verbatim>\<open>df.columns\<close>, \<^verbatim>\<open>df.iloc[:, i]\<close>).
\<close>

record dataframe =
  index_len :: nat
  series :: "(string \<times> cell list) list"

definition df_columns :: "dataframe \<Rightarrow> string list" where
  "df_columns df = map fst (series df)"

definition iloc_col :: "dataframe \<Rightarrow> nat \<Rightarrow> cell list" where
  "iloc_col df i = snd (series df ! i)"

datatype pyval =
    PNone
  | PInt int
  | PStr string
  | PTuple "pyval list"
  | PList "pyval list"
  | PDict "(string \<times> pyval) list"
  | PDataFrame dataframe

text \<open>
  An exception object of class \<^verbatim>\<open>Exception\<close> (or a subclass), with the text \<^verbatim>\<open>str(e)\<close>.
  These are what \<^verbatim>\<open>except Exception\<close> catches; the interpreter's own control signals
  (\<^verbatim>\<open>KeyboardInterrupt\<close>, \<^verbatim>\<open>SystemExit\<close>) are outside the model.
\<close>

datatype pyexn = PyException string

text \<open>What a plotting routine has put on the current matplotlib figure.\<close>

datatype figure =
    LinePlot "string option" "string list"
  | PiePlot "cell list" "cell list"
  | BarPlot "cell list" "cell list" string string
  | FrameBarPlot dataframe

text \<open>
  The calls that leave the process: to the two LLM chains of the query generator, to the
  store, and to the response chain of the chatbot.
\<close>

datatype call =
    CustomChainRun string
  | ChainInvoke string
  | DbRun string
  | ResponseChainRun string string string

text \<open>
  The external collaborators, as the constructors of the two classes set them up. Each either
  returns or raises.
  \<^item> \<open>custom_chain_run q\<close>: \<^verbatim>\<open>self.custom_chain.run(question=q, table_schema=self.table_schema)\<close>
  \<^item> \<open>chain_invoke q\<close>: \<^verbatim>\<open>self.chain.invoke(q)\<close>
  \<^item> \<open>db_run query d\<close>: \<^verbatim>\<open>self.db.run(query)\<close> on a store in state \<open>d\<close>, with the
    state it leaves the store in
  \<^item> \<open>response_chain_run q sql r\<close>: \<^verbatim>\<open>self.response_chain.run(question=q, sql_query=sql, query_result=r)\<close>
  \<^item> \<open>py_str v\<close>: \<^verbatim>\<open>str(v)\<close>
  \<^item> \<open>pd_DataFrame v cols\<close>: \<^verbatim>\<open>pd.DataFrame(v)\<close> or \<^verbatim>\<open>pd.DataFrame(v, columns=cols)\<close>
  \<^item> \<open>plt_render fig\<close>: drawing \<open>fig\<close> with matplotlib and encoding it as base64 PNG text
\<close>

record 'db env =
  custom_chain_run :: "string \<Rightarrow> pyexn + string"
  chain_invoke :: "string \<Rightarrow> pyexn + string"
  db_run :: "string \<Rightarrow> 'db \<Rightarrow> (pyexn + pyval) \<times> 'db"
  response_chain_run :: "string \<Rightarrow> string \<Rightarrow> string \<Rightarrow> pyexn + string"
  py_str :: "pyval \<Rightarrow> string"
  pd_DataFrame :: "pyval \<Rightarrow> string list option \<Rightarrow> pyexn + dataframe"
  plt_render :: "figure \<Rightarrow> pyexn + string"

text \<open>
  The state an operation runs in: the store, and the log of the calls made so far to the
  two LLM chains of the query generator, to the store and to the response chain.
\<close>

record 'db state =
  store :: 'db
  calls :: "call list"

definition log_call :: "call \<Rightarrow> 'db state \<Rightarrow> 'db state" where
  "log_call c s = s\<lparr>calls := calls s @ [c]\<rparr>"

section \<open>SQLQueryGenerator (query\_generator.py)\<close>

text \<open>
  Every operation returns its outcome (\<open>Inl\<close>: the exception that escapes to the caller)
  together with the state it leaves.
\<close>

definition generate_query ::
  "'db env \<Rightarrow> string \<Rightarrow> 'db state \<Rightarrow> (pyexn + string) \<times> 'db state" where
  "generate_query e question s =
     (if str_contains kw_active_ja question \<or> str_contains ''active'' (str_lower question)
      then (custom_chain_run e question, log_call (CustomChainRun question) s)
      else (case chain_invoke e question of
              Inr query \<Rightarrow> (Inr query, log_call (ChainInvoke question) s)
            | Inl ex \<Rightarrow>
                (custom_chain_run e question,
                 log_call (CustomChainRun question) (log_call (ChainInvoke question) s))))"

definition execute_query ::
  "'db env \<Rightarrow> string \<Rightarrow> 'db state \<Rightarrow> (pyexn + pyval) \<times> 'db state" where
  "execute_query e query s =
     (case db_run e query (store s) of
        (Inr res, d) \<Rightarrow> (Inr res, log_call (DbRun query) (s\<lparr>store := d\<rparr>))
      | (Inl (PyException msg), d) \<Rightarrow>
          (Inr (PStr (''Error executing query: '' @ msg)),
           log_call (DbRun query) (s\<lparr>store := d\<rparr>)))"

section \<open>CreditCardChatbot (src/chatbot.py)\<close>

text \<open>The chart keywords of \<^verbatim>\<open>_generate_visualization\<close> (lines 146 and 149), as UTF-8.\<close>

definition kw_transition :: string where
  "kw_transition = [CHR 0xE6, CHR 0x8E, CHR 0xA8, CHR 0xE7, CHR 0xA7, CHR 0xBB]"

definition kw_trend :: string where
  "kw_trend = [CHR 0xE3, CHR 0x83, CHR 0x88, CHR 0xE3, CHR 0x83, CHR 0xAC, CHR 0xE3, CHR 0x83,
     CHR 0xB3, CHR 0xE3, CHR 0x83, CHR 0x89]"

definition kw_change :: string where
  "kw_change = [CHR 0xE5, CHR 0xA4, CHR 0x89, CHR 0xE5, CHR 0x8C, CHR 0x96]"

definition kw_comparison :: string where
  "kw_comparison = [CHR 0xE6, CHR 0xAF, CHR 0x94, CHR 0xE8, CHR 0xBC, CHR 0x83]"

definition kw_proportion :: string where
  "kw_proportion = [CHR 0xE5, CHR 0x89, CHR 0xB2, CHR 0xE5, CHR 0x90, CHR 0x88]"

definition kw_distribution :: string where
  "kw_distribution = [CHR 0xE5, CHR 0x88, CHR 0x86, CHR 0xE5, CHR 0xB8, CHR 0x83]"

text \<open>The column-name hints of \<^verbatim>\<open>_create_time_series_plot\<close> (line 163).\<close>

definition date_keywords :: "string list" where
  "date_keywords = [''date'', ''time'', [CHR 0xE6, CHR 0x9C, CHR 0x88],
     [CHR 0xE6, CHR 0x97, CHR 0xA5], [CHR 0xE5, CHR 0xB9, CHR 0xB4]]"

text \<open>The fixed text in front of the error in the apology (line 89).\<close>

definition apology_prefix :: string where
  "apology_prefix = [CHR 0xE7, CHR 0x94, CHR 0xB3, CHR 0xE3, CHR 0x81, CHR 0x97, CHR 0xE8,
     CHR 0xA8, CHR 0xB3, CHR 0xE3, CHR 0x81, CHR 0x82, CHR 0xE3, CHR 0x82, CHR 0x8A, CHR 0xE3,
     CHR 0x81, CHR 0xBE, CHR 0xE3, CHR 0x81, CHR 0x9B, CHR 0xE3, CHR 0x82, CHR 0x93, CHR 0xE3,
     CHR 0x80, CHR 0x82, CHR 0xE3, CHR 0x82, CHR 0xAF, CHR 0xE3, CHR 0x82, CHR 0xA8, CHR 0xE3,
     CHR 0x83, CHR 0xAA, CHR 0xE3, CHR 0x81, CHR 0xAE, CHR 0xE5, CHR 0xAE, CHR 0x9F, CHR 0xE8,
     CHR 0xA1, CHR 0x8C, CHR 0xE4, CHR 0xB8, CHR 0xAD, CHR 0xE3, CHR 0x81, CHR 0xAB, CHR 0xE3,
     CHR 0x82, CHR 0xA8, CHR 0xE3, CHR 0x83, CHR 0xA9, CHR 0xE3, CHR 0x83, CHR 0xBC, CHR 0xE3,
     CHR 0x81, CHR 0x8C, CHR 0xE7, CHR 0x99, CHR 0xBA, CHR 0xE7, CHR 0x94, CHR 0x9F, CHR 0xE3,
     CHR 0x81, CHR 0x97, CHR 0xE3, CHR 0x81, CHR 0xBE, CHR 0xE3, CHR 0x81, CHR 0x97, CHR 0xE3,
     CHR 0x81, CHR 0x9F, CHR 0x3A, CHR 0x20]"

text \<open>The dictionary that \<^verbatim>\<open>process_question\<close> returns.\<close>

record response =
  answer :: string
  sql_query :: string
  visualization :: "string option"

text \<open>\<^verbatim>\<open>_fig_to_base64\<close>: the current figure as base64 PNG text.\<close>

definition fig_to_base64 :: "'db env \<Rightarrow> figure \<Rightarrow> pyexn + string" where
  "fig_to_base64 e fig = plt_render e fig"

text \<open>
  \<^verbatim>\<open>_create_time_series_plot\<close>: the x axis is the first column whose lower-cased name holds
  a date keyword, with every column of another name as a line; without such a column every
  column is drawn against the index.
\<close>

definition create_time_series_plot :: "'db env \<Rightarrow> dataframe \<Rightarrow> pyexn + string" where
  "create_time_series_plot e df =
     (case filter (\<lambda>col. list_ex (\<lambda>kw. str_contains kw (str_lower col)) date_keywords)
             (df_columns df) of
        date_col # rest \<Rightarrow>
          fig_to_base64 e (LinePlot (Some date_col) (filter (\<lambda>col. col \<noteq> date_col) (df_columns df)))
      | [] \<Rightarrow> fig_to_base64 e (LinePlot None (df_columns df)))"

text \<open>\<^verbatim>\<open>_create_bar_chart\<close>.\<close>

definition create_bar_chart :: "'db env \<Rightarrow> dataframe \<Rightarrow> pyexn + string" where
  "create_bar_chart e df =
     (if length (df_columns df) = 2
      then fig_to_base64 e
             (BarPlot (iloc_col df 0) (iloc_col df 1) (df_columns df ! 0) (df_columns df ! 1))
      else fig_to_base64 e (FrameBarPlot df))"

text \<open>\<^verbatim>\<open>_create_comparison_plot\<close>.\<close>

definition create_comparison_plot :: "'db env \<Rightarrow> dataframe \<Rightarrow> pyexn + string" where
  "create_comparison_plot e df =
     (if length (df_columns df) = 2
      then fig_to_base64 e (PiePlot (iloc_col df 0) (iloc_col df 1))
      else create_bar_chart e df)"

text \<open>
  Lines 121 to 138 of \<^verbatim>\<open>_generate_visualization\<close>: the frame to chart, or \<open>None\<close> where the
  function returns \<^verbatim>\<open>None\<close> at once (line 133, and line 136 when the constructor raises).
\<close>

fun to_dataframe :: "'db env \<Rightarrow> pyval \<Rightarrow> dataframe option" where
  "to_dataframe e (PDataFrame df) = Some df"
| "to_dataframe e (PList (PDict d # rest)) =
     (case pd_DataFrame e (PList (PDict d # rest)) None of
        Inr df \<Rightarrow> Some df | Inl ex \<Rightarrow> None)"
| "to_dataframe e (PList (x # rest)) =
     (case pd_DataFrame e (PList (x # rest)) (Some [''Value'']) of
        Inr df \<Rightarrow> Some df | Inl ex \<Rightarrow> None)"
| "to_dataframe e other = None"

text \<open>\<^verbatim>\<open>_generate_visualization\<close>, from line 140 on.\<close>

definition generate_visualization :: "'db env \<Rightarrow> string \<Rightarrow> pyval \<Rightarrow> pyexn + string option" where
  "generate_visualization e question query_result =
     (case to_dataframe e query_result of
        None \<Rightarrow> Inr None
      | Some df \<Rightarrow>
          if index_len df \<le> 1 \<and> length (df_columns df) \<le> 1 then Inr None
          else if str_contains kw_transition question \<or> str_contains kw_trend question
                  \<or> str_contains kw_change question
            then map_sum id Some (create_time_series_plot e df)
          else if str_contains kw_comparison question \<or> str_contains kw_proportion question
                  \<or> str_contains kw_distribution question
            then map_sum id Some (create_comparison_plot e df)
          else if index_len df > 1 \<and> length (df_columns df) \<ge> 2
            then map_sum id Some (create_bar_chart e df)
          else Inr None)"

text \<open>The test of line 87.\<close>

fun is_error_result :: "pyval \<Rightarrow> bool" where
  "is_error_result (PStr s) = startswith s ''Error''"
| "is_error_result other = False"

text \<open>The text that follows \<open>apology_prefix\<close> at line 89: the result, a \<^verbatim>\<open>str\<close> there.\<close>

fun str_value :: "pyval \<Rightarrow> string" where
  "str_value (PStr s) = s"
| "str_value other = []"

definition process_question ::
  "'db env \<Rightarrow> string \<Rightarrow> 'db state \<Rightarrow> (pyexn + response) \<times> 'db state" where
  "process_question e question s =
     (case generate_query e question s of
        (Inl ex, s1) \<Rightarrow> (Inl ex, s1)
      | (Inr sql, s1) \<Rightarrow>
          (case execute_query e sql s1 of
             (Inl ex, s2) \<Rightarrow> (Inl ex, s2)
           | (Inr query_result, s2) \<Rightarrow>
               if is_error_result query_result
               then (Inr \<lparr>answer = apology_prefix @ str_value query_result, sql_query = sql,
                           visualization = None\<rparr>, s2)
               else
                 (case generate_visualization e question query_result of
                    Inl ex \<Rightarrow> (Inl ex, s2)
                  | Inr vis \<Rightarrow>
                      (case response_chain_run e question sql (py_str e query_result) of
                         Inl ex \<Rightarrow>
                           (Inl ex,
                            log_call (ResponseChainRun question sql (py_str e query_result)) s2)
                       | Inr resp \<Rightarrow>
                           (Inr \<lparr>answer = resp, sql_query = sql, visualization = vis\<rparr>,
                            log_call (ResponseChainRun question sql (py_str e query_result)) s2)))))"

section \<open>Test doubles\<close>

text \<open>
  Fake collaborators on which the operations are run. The store holds one table, the amounts
  of the purchases: a \<^verbatim>\<open>SELECT\<close> returns its rows, a \<^verbatim>\<open>DELETE\<close> empties it (the result
  text is empty then), anything else raises. The LLM chains answer every question with a
  fixed query, the response chain echoes the result, the DataFrame constructor refuses its
  argument and the renderer returns the name of an image that tells the kind of the chart.
\<close>

fun fake_render :: "figure \<Rightarrow> pyexn + string" where
  "fake_render (LinePlot x ys) = Inr ''line.png''"
| "fake_render (PiePlot labels vals) = Inr ''pie.png''"
| "fake_render (BarPlot labels vals xlabel ylabel) = Inr ''bar.png''"
| "fake_render (FrameBarPlot df) = Inr ''bar.png''"

definition fake_db_run :: "string \<Rightarrow> int list \<Rightarrow> (pyexn + pyval) \<times> int list" where
  "fake_db_run query d =
     (if startswith query ''SELECT'' then (Inr (PList (map (\<lambda>a. PTuple [PInt a]) d)), d)
      else if startswith query ''DELETE'' then (Inr (PStr []), [])
      else (Inl (PyException ''syntax error''), d))"

definition fake_env :: "int list env" where
  "fake_env = \<lparr>
     custom_chain_run = (\<lambda>q. Inr ''SELECT p.amount FROM purchases p''),
     chain_invoke = (\<lambda>q. Inr ''SELECT amount FROM purchases''),
     db_run = fake_db_run,
     response_chain_run = (\<lambda>q sql r. Inr r),
     py_str = str_value,
     pd_DataFrame = (\<lambda>v cols. Inl (PyException ''ValueError'')),
     plt_render = fake_render \<rparr>"

definition fake_state :: "int list state" where
  "fake_state = \<lparr>store = [1200, 300], calls = []\<rparr>"

text \<open>Two result tables: a share per category, and two figures per month.\<close>

definition share_frame :: dataframe where
  "share_frame = \<lparr>index_len = 2,
     series = [(''category'', [CText ''pet'', CText ''travel'']), (''share'', [CInt 60, CInt 40])]\<rparr>"

definition monthly_frame :: dataframe where
  "monthly_frame = \<lparr>index_len = 2,
     series = [(''month'', [CText ''2024-01'', CText ''2024-02'']),
               (''active_users'', [CInt 10, CInt 12]), (''purchases'', [CInt 31, CInt 45])]\<rparr>"

section \<open>Facts about the string operations\<close>

lemma startswith_map: "startswith s p \<Longrightarrow> startswith (map f s) (map f p)"
  unfolding startswith_def by (metis length_map take_map)

lemma str_contains_map: "str_contains n h \<Longrightarrow> str_contains (map f n) (map f h)"
proof (induction h)
  case Nil
  then show ?case by simp
next
  case (Cons c cs)
  then show ?case using startswith_map [of "c # cs" n f] by auto
qed

lemma lower_active: "str_lower ''active'' = ''active''"
  by (simp add: str_lower_def lower_char_def)

lemma str_contains_active_lower:
  "str_contains ''active'' q \<Longrightarrow> str_contains ''active'' (str_lower q)"
  using str_contains_map [of "''active''" q lower_char] lower_active
  by (simp add: str_lower_def)

lemma contains_active_example: "str_contains ''active'' (str_lower ''Count ACTIVE users'')"
  by code_simp


lemma proportion_only:
  "str_contains kw_proportion kw_proportion \<and> \<not> str_contains kw_transition kw_proportion \<and>
   \<not> str_contains kw_trend kw_proportion \<and> \<not> str_contains kw_change kw_proportion"
  by (simp add: kw_proportion_def kw_transition_def kw_trend_def kw_change_def startswith_def)

lemma no_active_example:
  "\<not> str_contains kw_active_ja ''Count users'' \<and>
   \<not> str_contains ''active'' (str_lower ''Count users'')"
  by (simp add: kw_active_ja_def str_lower_def lower_char_def startswith_def)

lemma is_error_result_iff: "is_error_result r \<longleftrightarrow> (\<exists>t. r = PStr t \<and> startswith t ''Error'')"
  by (cases r) simp_all

section \<open>Facts about the call log\<close>

lemma log_call_neq: "log_call c s \<noteq> s"
proof
  assume "log_call c s = s"
  then have "calls (log_call c s) = calls s" by simp
  then show False by (simp add: log_call_def)
qed


section \<open>Where an escaping exception comes from\<close>

lemma to_dataframe_chain_invoke [simp]:
  "to_dataframe (e\<lparr>chain_invoke := f\<rparr>) r = to_dataframe e r"
  by (cases "(e, r)" rule: to_dataframe.cases) simp_all

lemma create_plots_chain_invoke [simp]:
  "create_time_series_plot (e\<lparr>chain_invoke := f\<rparr>) df = create_time_series_plot e df"
  "create_comparison_plot (e\<lparr>chain_invoke := f\<rparr>) df = create_comparison_plot e df"
  "create_bar_chart (e\<lparr>chain_invoke := f\<rparr>) df = create_bar_chart e df"
  by (simp_all add: create_time_series_plot_def create_comparison_plot_def create_bar_chart_def
      fig_to_base64_def split: list.splits)









section \<open>Properties of the query executor\<close>

text \<open>
  C4 (as the code has it). \<open>execute_query\<close> never raises to its caller: when the store raises,
  it returns the text \<^verbatim>\<open>Error executing query: \<close> followed by the message of the failure,
  a plain \<^verbatim>\<open>str\<close>, and when the store returns, it returns the store's result.
\<close>

theorem execute_query_never_raises:
  "(\<exists>v. fst (execute_query e query s) = Inr v) \<and>
   (\<forall>msg d. db_run e query (store s) = (Inl (PyException msg), d) \<longrightarrow>
      fst (execute_query e query s) = Inr (PStr (''Error executing query: '' @ msg))) \<and>
   (\<forall>res d. db_run e query (store s) = (Inr res, d) \<longrightarrow>
      fst (execute_query e query s) = Inr res)"
  by (auto simp: execute_query_def split: sum.splits pyexn.splits prod.splits)

theorem execute_query_never_raises_witness:
  "fst (execute_query fake_env ''SELEC 1'' fake_state)
     = Inr (PStr ''Error executing query: syntax error'') \<and>
   fst (execute_query fake_env ''SELECT 1'' fake_state)
     = Inr (PList [PTuple [PInt 1200], PTuple [PInt 300]])"
  using execute_query_never_raises [of fake_env "''SELEC 1''" fake_state]
        execute_query_never_raises [of fake_env "''SELECT 1''" fake_state]
  by (simp add: fake_env_def fake_db_run_def fake_state_def startswith_def)

text \<open>
  C4 as the specification states it fails: the error is no value of a type of its own. A
  store that raises and a store that returns the same text as its result give the same value
  of \<open>execute_query\<close>.
\<close>

theorem execute_query_error_is_plain_text_counterexample:
  "fst (execute_query (fake_env\<lparr>db_run := \<lambda>q d. (Inl (PyException ''no such table''), d)\<rparr>)
         ''SELECT 1'' fake_state)
     = Inr (PStr ''Error executing query: no such table'') \<and>
   fst (execute_query
         (fake_env\<lparr>db_run := \<lambda>q d. (Inr (PStr ''Error executing query: no such table''), d)\<rparr>)
         ''SELECT 1'' fake_state)
     = Inr (PStr ''Error executing query: no such table'')"
  by (simp add: execute_query_def)

text \<open>
  C1 (as the code has it). \<open>execute_query\<close> has no test for write statements: it hands every
  query string, a \<^verbatim>\<open>DELETE\<close> included, unchanged to the store's \<^verbatim>\<open>run\<close>, exactly once, and
  leaves the store as that call left it; it returns an error text only when the store
  itself raises.
\<close>

theorem execute_query_runs_every_statement:
  "snd (execute_query e query s)
     = \<lparr>store = snd (db_run e query (store s)), calls = calls s @ [DbRun query]\<rparr> \<and>
   fst (execute_query e query s)
     = (case fst (db_run e query (store s)) of
          Inr res \<Rightarrow> Inr res
        | Inl (PyException msg) \<Rightarrow> Inr (PStr (''Error executing query: '' @ msg)))"
  by (auto simp: execute_query_def log_call_def split: sum.splits pyexn.splits prod.splits)

text \<open>
  C1 as the specification states it fails: on a store that carries out a \<^verbatim>\<open>DELETE\<close>, the
  statement reaches the store, the table is emptied and the value returned is not an error.
\<close>

theorem execute_query_delete_counterexample:
  "execute_query fake_env ''DELETE FROM purchases'' fake_state
     = (Inr (PStr []), \<lparr>store = [], calls = [DbRun ''DELETE FROM purchases'']\<rparr>) \<and>
   \<not> is_error_result (PStr []) \<and> store fake_state = [1200, 300]"
  by (simp add: execute_query_def fake_env_def fake_db_run_def fake_state_def startswith_def
      log_call_def)

section \<open>Properties of the query synthesizer\<close>

text \<open>
  C8. A question that holds the katakana keyword or \<^verbatim>\<open>active\<close> (in any letter case) goes to
  the custom-prompt chain, the code's rule-based path: the outcome is that chain's, the only
  call made is to it, so the generic chain is not invoked, and the store is untouched.
\<close>

theorem generate_query_active_routes_custom:
  assumes "str_contains kw_active_ja question \<or> str_contains ''active'' question
           \<or> str_contains ''active'' (str_lower question)"
  shows "fst (generate_query e question s) = custom_chain_run e question \<and>
         calls (snd (generate_query e question s)) = calls s @ [CustomChainRun question] \<and>
         store (snd (generate_query e question s)) = store s"
  using assms str_contains_active_lower [of question]
  by (auto simp: generate_query_def log_call_def)

theorem generate_query_active_routes_custom_witness:
  "fst (generate_query fake_env ''Count ACTIVE users'' fake_state)
     = Inr ''SELECT p.amount FROM purchases p'' \<and>
   calls (snd (generate_query fake_env ''Count ACTIVE users'' fake_state))
     = [CustomChainRun ''Count ACTIVE users'']"
  using generate_query_active_routes_custom [of "''Count ACTIVE users''" fake_env fake_state]
    contains_active_example
  by (simp add: fake_env_def fake_state_def)

text \<open>
  C3 (as the code has it). \<open>generate_query\<close> returns a single query string unless the
  custom-prompt chain is reached (the question holds a keyword, or the generic chain raised)
  and itself raises; it raises exactly then, with that chain's exception. When the generic
  chain raises, \<open>generate_query\<close> does not propagate that failure but falls back to the
  custom-prompt chain, also for a question without a keyword.
\<close>

theorem generate_query_fallback:
  "((\<exists>query. fst (generate_query e question s) = Inr query) \<longleftrightarrow>
      \<not> ((str_contains kw_active_ja question \<or> str_contains ''active'' (str_lower question)
           \<or> (\<exists>ex0. chain_invoke e question = Inl ex0))
          \<and> (\<exists>ex. custom_chain_run e question = Inl ex))) \<and>
   (\<forall>ex. fst (generate_query e question s) = Inl ex \<longleftrightarrow>
      (str_contains kw_active_ja question \<or> str_contains ''active'' (str_lower question)
       \<or> (\<exists>ex0. chain_invoke e question = Inl ex0))
      \<and> custom_chain_run e question = Inl ex) \<and>
   (\<forall>ex0. chain_invoke e question = Inl ex0 \<longrightarrow>
      fst (generate_query e question s) = custom_chain_run e question)"
proof -
  have a: "(\<exists>query. fst (generate_query e question s) = Inr query) \<longleftrightarrow>
      \<not> ((str_contains kw_active_ja question \<or> str_contains ''active'' (str_lower question)
           \<or> (\<exists>ex0. chain_invoke e question = Inl ex0))
          \<and> (\<exists>ex. custom_chain_run e question = Inl ex))"
    by (cases "chain_invoke e question"; cases "custom_chain_run e question")
      (auto simp: generate_query_def)
  have b: "fst (generate_query e question s) = Inl ex \<longleftrightarrow>
      (str_contains kw_active_ja question \<or> str_contains ''active'' (str_lower question)
       \<or> (\<exists>ex0. chain_invoke e question = Inl ex0))
      \<and> custom_chain_run e question = Inl ex" for ex
    by (cases "chain_invoke e question"; cases "custom_chain_run e question")
      (auto simp: generate_query_def)
  have c: "fst (generate_query e question s) = custom_chain_run e question"
    if "chain_invoke e question = Inl ex0" for ex0
    using that by (simp add: generate_query_def)
  show ?thesis using a b c by blast
qed

theorem generate_query_fallback_witness:
  "generate_query (fake_env\<lparr>chain_invoke := \<lambda>q. Inl (PyException ''timeout'')\<rparr>)
      ''Count users'' fake_state
     = (Inr ''SELECT p.amount FROM purchases p'',
        \<lparr>store = [1200, 300],
         calls = [ChainInvoke ''Count users'', CustomChainRun ''Count users'']\<rparr>) \<and>
   fst (generate_query (fake_env\<lparr>custom_chain_run := \<lambda>q. Inl (PyException ''rate limit'')\<rparr>)
         ''Count users'' fake_state) = Inr ''SELECT amount FROM purchases''"
proof -
  let ?f = "fake_env\<lparr>chain_invoke := \<lambda>q. Inl (PyException ''timeout'')\<rparr>"
  let ?c = "fake_env\<lparr>custom_chain_run := \<lambda>q. Inl (PyException ''rate limit'')\<rparr>"
  have nc: "\<forall>ex0. chain_invoke ?c ''Count users'' \<noteq> Inl ex0"
    by (simp add: fake_env_def)
  have "\<exists>query. fst (generate_query ?c ''Count users'' fake_state) = Inr query"
    using generate_query_fallback [of ?c "''Count users''" fake_state] no_active_example nc
    by blast
  moreover have "fst (generate_query ?f ''Count users'' fake_state)
                   = custom_chain_run ?f ''Count users''"
    using generate_query_fallback [of ?f "''Count users''" fake_state] by simp
  ultimately show ?thesis
    using no_active_example
    by (auto simp: generate_query_def fake_env_def fake_state_def log_call_def)
qed

text \<open>
  C3 as the specification states it fails: the custom-prompt chain is itself a call to the
  LLM, made outside every \<^verbatim>\<open>try\<close>, and when it raises, \<open>generate_query\<close> raises.
\<close>

theorem generate_query_custom_chain_failure_counterexample:
  "fst (generate_query (fake_env\<lparr>custom_chain_run := \<lambda>q. Inl (PyException ''rate limit'')\<rparr>)
         ''Count ACTIVE users'' fake_state) = Inl (PyException ''rate limit'')"
  using contains_active_example by (simp add: generate_query_def fake_env_def)

section \<open>Properties of the chart selection\<close>

text \<open>
  C6. When the frame to chart (the result itself, or the frame built from a list) has at most
  one row and at most one column, \<open>generate_visualization\<close> returns \<^verbatim>\<open>None\<close>, whatever the
  question says.
\<close>

theorem visualize_scalar_none:
  assumes "to_dataframe e query_result = Some df"
    and "index_len df \<le> 1" and "length (df_columns df) \<le> 1"
  shows "generate_visualization e question query_result = Inr None"
  using assms by (simp add: generate_visualization_def)

theorem visualize_scalar_none_witness:
  "generate_visualization fake_env (kw_transition @ kw_proportion)
     (PDataFrame \<lparr>index_len = 1, series = [(''count'', [CInt 100])]\<rparr>) = Inr None"
  using visualize_scalar_none [of fake_env
      "PDataFrame \<lparr>index_len = 1, series = [(''count'', [CInt 100])]\<rparr>"
      "\<lparr>index_len = 1, series = [(''count'', [CInt 100])]\<rparr>" "kw_transition @ kw_proportion"]
  by (simp add: df_columns_def)

text \<open>
  C10. A result that is neither a DataFrame nor a non-empty list (a string, the empty list)
  gives no chart, whatever the question says.
\<close>

theorem visualize_non_table_none:
  assumes "\<forall>df. query_result \<noteq> PDataFrame df" and "\<forall>x xs. query_result \<noteq> PList (x # xs)"
  shows "generate_visualization e question query_result = Inr None"
proof -
  have "to_dataframe e query_result = None"
    using assms by (cases "(e, query_result)" rule: to_dataframe.cases) auto
  then show ?thesis by (simp add: generate_visualization_def)
qed

theorem visualize_non_table_none_witness:
  "generate_visualization fake_env kw_trend (PStr ''[(1200,), (300,)]'') = Inr None \<and>
   generate_visualization fake_env kw_comparison (PList []) = Inr None"
  using visualize_non_table_none [of "PStr ''[(1200,), (300,)]''" fake_env kw_trend]
        visualize_non_table_none [of "PList []" fake_env kw_comparison]
  by simp

text \<open>
  C7. The chart kind goes by keyword priority, the time-series keywords first. For a question
  with a comparison, proportion or distribution keyword that the first rule does not take
  (none of the three time-series keywords), the chart is a pie of the first two columns when
  the frame has exactly two columns, and the bar chart of the whole frame when it has three
  or more.
\<close>

theorem visualize_comparison_choice:
  assumes "to_dataframe e query_result = Some df"
    and "str_contains kw_comparison question \<or> str_contains kw_proportion question
         \<or> str_contains kw_distribution question"
    and "\<not> (str_contains kw_transition question \<or> str_contains kw_trend question
            \<or> str_contains kw_change question)"
  shows "(length (df_columns df) = 2 \<longrightarrow>
            generate_visualization e question query_result
              = map_sum id Some (fig_to_base64 e (PiePlot (iloc_col df 0) (iloc_col df 1)))) \<and>
         (3 \<le> length (df_columns df) \<longrightarrow>
            generate_visualization e question query_result
              = map_sum id Some (fig_to_base64 e (FrameBarPlot df)))"
  using assms
  by (auto simp: generate_visualization_def create_comparison_plot_def create_bar_chart_def)

theorem visualize_comparison_choice_witness:
  "generate_visualization fake_env kw_proportion (PDataFrame share_frame) = Inr (Some ''pie.png'') \<and>
   generate_visualization fake_env kw_proportion (PDataFrame monthly_frame) = Inr (Some ''bar.png'')"
  using visualize_comparison_choice [of fake_env "PDataFrame share_frame" share_frame kw_proportion]
    visualize_comparison_choice [of fake_env "PDataFrame monthly_frame" monthly_frame kw_proportion]
    proportion_only
  by (simp add: share_frame_def monthly_frame_def df_columns_def fig_to_base64_def fake_env_def)

section \<open>Properties of the orchestrator\<close>



text \<open>
  C9. Let the query of \<open>generate_query\<close> have run, with result \<open>r\<close>. A failure of the store
  gives the text \<^verbatim>\<open>Error executing query: \<close> with the message, so a string that starts with
  \<^verbatim>\<open>Error\<close>. \<open>process_question\<close> returns an apology with no chart, adding no call, exactly
  when \<open>r\<close> is a string that starts with \<^verbatim>\<open>Error\<close>, and the apology then quotes that string;
  so a query that succeeds with such a string gets the apology too.
\<close>

theorem process_question_error_by_prefix:
  assumes "generate_query e question s = (Inr sql, s1)"
    and "execute_query e sql s1 = (Inr r, s2)"
  shows "(\<forall>msg d. db_run e sql (store s1) = (Inl (PyException msg), d) \<longrightarrow>
            r = PStr (''Error executing query: '' @ msg) \<and>
            startswith (''Error executing query: '' @ msg) ''Error executing query: '' \<and>
            startswith (''Error executing query: '' @ msg) ''Error'') \<and>
         ((\<exists>t. process_question e question s
              = (Inr \<lparr>answer = apology_prefix @ t, sql_query = sql, visualization = None\<rparr>, s2))
          \<longleftrightarrow> (\<exists>t. r = PStr t \<and> startswith t ''Error'')) \<and>
         (\<forall>t. r = PStr t \<and> startswith t ''Error'' \<longrightarrow>
            process_question e question s
              = (Inr \<lparr>answer = apology_prefix @ t, sql_query = sql, visualization = None\<rparr>, s2)) \<and>
         (\<forall>t d. db_run e sql (store s1) = (Inr (PStr t), d) \<and> startswith t ''Error'' \<longrightarrow>
            process_question e question s
              = (Inr \<lparr>answer = apology_prefix @ t, sql_query = sql, visualization = None\<rparr>, s2))"
proof -
  have a: "r = PStr (''Error executing query: '' @ msg) \<and>
           startswith (''Error executing query: '' @ msg) ''Error executing query: '' \<and>
           startswith (''Error executing query: '' @ msg) ''Error''"
    if "db_run e sql (store s1) = (Inl (PyException msg), d)" for msg d
  proof -
    have "r = PStr (''Error executing query: '' @ msg)"
      using that assms(2) by (auto simp: execute_query_def)
    then show ?thesis by (simp add: startswith_def)
  qed
  have c: "process_question e question s
              = (Inr \<lparr>answer = apology_prefix @ t, sql_query = sql, visualization = None\<rparr>, s2)"
    if "r = PStr t" and "startswith t ''Error''" for t
    using assms that by (simp add: process_question_def)
  have n: "process_question e question s \<noteq> (Inr resp, s2)"
    if "\<not> (\<exists>t. r = PStr t \<and> startswith t ''Error'')" for resp
  proof -
    have "\<not> is_error_result r" using that is_error_result_iff [of r] by simp
    then show ?thesis
      using assms log_call_neq [of _ s2]
      by (auto simp: process_question_def split: sum.splits)
  qed
  have b: "(\<exists>t. process_question e question s
              = (Inr \<lparr>answer = apology_prefix @ t, sql_query = sql, visualization = None\<rparr>, s2))
          \<longleftrightarrow> (\<exists>t. r = PStr t \<and> startswith t ''Error'')"
  proof
    assume "\<exists>t. process_question e question s
              = (Inr \<lparr>answer = apology_prefix @ t, sql_query = sql, visualization = None\<rparr>, s2)"
    then obtain t where "process_question e question s
              = (Inr \<lparr>answer = apology_prefix @ t, sql_query = sql, visualization = None\<rparr>, s2)"
      by (rule exE)
    then show "\<exists>t. r = PStr t \<and> startswith t ''Error''"
      using n [of "\<lparr>answer = apology_prefix @ t, sql_query = sql, visualization = None\<rparr>"]
      by (cases "\<exists>t. r = PStr t \<and> startswith t ''Error''") simp_all
  next
    assume "\<exists>t. r = PStr t \<and> startswith t ''Error''"
    then obtain t where "r = PStr t" and "startswith t ''Error''" by (elim exE conjE)
    then have "process_question e question s
              = (Inr \<lparr>answer = apology_prefix @ t, sql_query = sql, visualization = None\<rparr>, s2)"
      by (rule c)
    then show "\<exists>t. process_question e question s
              = (Inr \<lparr>answer = apology_prefix @ t, sql_query = sql, visualization = None\<rparr>, s2)"
      by (rule exI)
  qed
  have d: "process_question e question s
              = (Inr \<lparr>answer = apology_prefix @ t, sql_query = sql, visualization = None\<rparr>, s2)"
    if "db_run e sql (store s1) = (Inr (PStr t), d)" and "startswith t ''Error''" for t d
  proof -
    have "r = PStr t" using that(1) assms(2) by (simp add: execute_query_def)
    then show ?thesis using c that(2) by simp
  qed
  show ?thesis
  proof (intro conjI)
    show "\<forall>msg d. db_run e sql (store s1) = (Inl (PyException msg), d) \<longrightarrow>
            r = PStr (''Error executing query: '' @ msg) \<and>
            startswith (''Error executing query: '' @ msg) ''Error executing query: '' \<and>
            startswith (''Error executing query: '' @ msg) ''Error''"
      using a by (intro allI impI)
    show "(\<exists>t. process_question e question s
              = (Inr \<lparr>answer = apology_prefix @ t, sql_query = sql, visualization = None\<rparr>, s2))
          \<longleftrightarrow> (\<exists>t. r = PStr t \<and> startswith t ''Error'')"
      by (rule b)
    show "\<forall>t. r = PStr t \<and> startswith t ''Error'' \<longrightarrow>
            process_question e question s
              = (Inr \<lparr>answer = apology_prefix @ t, sql_query = sql, visualization = None\<rparr>, s2)"
      using c by (intro allI impI) (elim conjE)
    show "\<forall>t d. db_run e sql (store s1) = (Inr (PStr t), d) \<and> startswith t ''Error'' \<longrightarrow>
            process_question e question s
              = (Inr \<lparr>answer = apology_prefix @ t, sql_query = sql, visualization = None\<rparr>, s2)"
      using d by (intro allI impI) (elim conjE)
  qed
qed

theorem process_question_error_by_prefix_witness:
  "process_question (fake_env\<lparr>db_run := \<lambda>q d. (Inr (PStr ''Error rate: 0.2''), d)\<rparr>)
      ''Count users'' fake_state
     = (Inr \<lparr>answer = apology_prefix @ ''Error rate: 0.2'',
              sql_query = ''SELECT amount FROM purchases'', visualization = None\<rparr>,
        \<lparr>store = [1200, 300],
         calls = [ChainInvoke ''Count users'', DbRun ''SELECT amount FROM purchases'']\<rparr>)"
proof -
  let ?e = "fake_env\<lparr>db_run := \<lambda>q d. (Inr (PStr ''Error rate: 0.2''), d)\<rparr>"
  let ?s1 = "\<lparr>store = [1200, 300], calls = [ChainInvoke ''Count users'']\<rparr> :: int list state"
  let ?s2 = "\<lparr>store = [1200, 300],
              calls = [ChainInvoke ''Count users'', DbRun ''SELECT amount FROM purchases'']\<rparr>
             :: int list state"
  have g: "generate_query ?e ''Count users'' fake_state
             = (Inr ''SELECT amount FROM purchases'', ?s1)"
    by (simp add: generate_query_def fake_env_def fake_state_def log_call_def kw_active_ja_def
        str_lower_def lower_char_def startswith_def)
  have x: "execute_query ?e ''SELECT amount FROM purchases'' ?s1
             = (Inr (PStr ''Error rate: 0.2''), ?s2)"
    by (simp add: execute_query_def log_call_def)
  have d: "db_run ?e ''SELECT amount FROM purchases'' (store ?s1)
             = (Inr (PStr ''Error rate: 0.2''), [1200, 300])"
    by simp
  have p: "startswith ''Error rate: 0.2'' ''Error''"
    by (simp add: startswith_def)
  show ?thesis
  proof -
    note inst = process_question_error_by_prefix [OF g x]
    from inst have "\<forall>t d. db_run ?e ''SELECT amount FROM purchases'' (store ?s1) = (Inr (PStr t), d)
                     \<and> startswith t ''Error'' \<longrightarrow>
            process_question ?e ''Count users'' fake_state
              = (Inr \<lparr>answer = apology_prefix @ t, sql_query = ''SELECT amount FROM purchases'',
                       visualization = None\<rparr>, ?s2)"
      by (elim conjE)
    then show ?thesis using d p by (elim allE [of _ "''Error rate: 0.2''"] allE [of _ "[1200, 300]"]) simp
  qed
qed




end
